theory Spec2Isabelle
  imports Complex_Main
begin

section \<open>Live ring modulation patch (script.js)\<close>

text \<open>
  The script builds a Web Audio patch at module top level and then registers three
  listeners (button click, modulation-rate slider, output-gain slider). It is embedded as
  follows:
  \<^item> a Number of the script is a binary64 value, NaN or an infinity; division is the
    correctly rounded one, and the part of exponentiation that the language leaves to the
    implementation is a function of the host;
  \<^item> an AudioParam is a record of its current value and its automation timeline; the
    value handed to a scheduling call is converted to float32, and the call throws when
    that conversion fails; times are kept as reals, and the values between events are
    interpolated in the reals;
  \<^item> the patch (context, nodes, connections, DOM texts, console) is one record;
  \<^item> module evaluation is \<open>script_js\<close>, which fails with the error of a rejected top-level
    await;
  \<^item> every listener is a function on the patch, and what the host does between listeners
    (settling a suspend/resume promise, letting context time pass) is an event of its own.
\<close>

subsection \<open>Numbers\<close>

datatype error = NotAllowedError | NotFoundError | InvalidStateError | TypeError

text \<open>A Number: a finite value (the sign of zero is not kept), an infinity or NaN.\<close>

datatype jsnum = Finite real | PosInf | NegInf | NaN

text \<open>Rounding a real to the nearest integer, a tie to the even one.\<close>

definition rne :: "real \<Rightarrow> int" where
  "rne x =
     (if frac x < 1 / 2 then \<lfloor>x\<rfloor>
      else if 1 / 2 < frac x then \<lfloor>x\<rfloor> + 1
      else if even \<lfloor>x\<rfloor> then \<lfloor>x\<rfloor> else \<lfloor>x\<rfloor> + 1)"

text \<open>
  A binary format with \<open>p\<close> significant bits and least normal exponent \<open>emin\<close>: the exponent
  of the binade of \<open>x\<close> (that of the subnormal numbers below the least normal one), the
  spacing of the format's numbers there, and the nearest number of the format, a tie to
  the even significand. The exponent is not bounded above here: overflow is decided on
  the rounded value, as IEEE 754 does.
\<close>

definition binade :: "int \<Rightarrow> real \<Rightarrow> int" where
  "binade emin x = max \<lfloor>log 2 \<bar>x\<bar>\<rfloor> emin"

definition quantum :: "nat \<Rightarrow> int \<Rightarrow> real \<Rightarrow> real" where
  "quantum p emin x = 2 powr real_of_int (binade emin x - (int p - 1))"

definition round_fmt :: "nat \<Rightarrow> int \<Rightarrow> real \<Rightarrow> real" where
  "round_fmt p emin x =
     (if x = 0 then 0 else real_of_int (rne (x / quantum p emin x)) * quantum p emin x)"

text \<open>The binary64 result of an operation whose exact result is \<open>x\<close>.\<close>

definition to_double :: "real \<Rightarrow> jsnum" where
  "to_double x =
     (let y = round_fmt 53 (- 1022) x
      in if 2 ^ 1024 \<le> y then PosInf else if y \<le> - (2 ^ 1024) then NegInf else Finite y)"

text \<open>
  The conversion of a Number to the \<open>float\<close> argument of a platform call: NaN and the
  infinities are a TypeError, and so is a number whose nearest float32 value is out of
  range; otherwise the result is that float32 value.
\<close>

definition to_float :: "jsnum \<Rightarrow> error + real" where
  "to_float v =
     (case v of
        Finite x \<Rightarrow>
          (let y = round_fmt 24 (- 126) x in if 2 ^ 128 \<le> \<bar>y\<bar> then Inl TypeError else Inr y)
      | PosInf \<Rightarrow> Inl TypeError
      | NegInf \<Rightarrow> Inl TypeError
      | NaN \<Rightarrow> Inl TypeError)"


subsection \<open>Function definitions\<close>

text \<open>
  \<^verbatim>\<open>const db2a = function(dBFS){ return 10**(dBFS / 20); }\<close>

  The quotient \<open>dBFS / 20\<close> is the binary64 division by the constant 20. For the power
  \<open>10 ** q\<close> the language fixes the result for an exponent that is NaN, zero or infinite
  and leaves the rest to the implementation: \<open>ten_to\<close> is the host's result for a finite
  exponent other than zero.
\<close>

definition div20 :: "jsnum \<Rightarrow> jsnum" where
  "div20 d =
     (case d of Finite x \<Rightarrow> to_double (x / 20) | PosInf \<Rightarrow> PosInf | NegInf \<Rightarrow> NegInf
      | NaN \<Rightarrow> NaN)"

definition pow10 :: "(real \<Rightarrow> jsnum) \<Rightarrow> jsnum \<Rightarrow> jsnum" where
  "pow10 ten_to q =
     (case q of
        NaN \<Rightarrow> NaN
      | PosInf \<Rightarrow> PosInf
      | NegInf \<Rightarrow> Finite 0
      | Finite x \<Rightarrow> if x = 0 then Finite 1 else ten_to x)"

definition db2a :: "(real \<Rightarrow> jsnum) \<Rightarrow> jsnum \<Rightarrow> jsnum" where
  "db2a ten_to dBFS = pow10 ten_to (div20 dBFS)"

subsection \<open>AudioParam automation\<close>

text \<open>
  The script only calls the Web Audio interface; what its calls do to a parameter follows
  the automation rules of that interface, restricted to the events the script can create: a
  linear ramp ending with a value at a time (\<open>linearRampToValueAtTime\<close>), and the set-value
  event that the platform supplies as the start of a ramp that has no event before it. Both
  carry a float32 value and a time.
\<close>

datatype automation_event = SetValue real real | LinearRamp real real

fun ev_value :: "automation_event \<Rightarrow> real" where
  "ev_value (SetValue v T) = v"
| "ev_value (LinearRamp v T) = v"

fun ev_time :: "automation_event \<Rightarrow> real" where
  "ev_time (SetValue v T) = T"
| "ev_time (LinearRamp v T) = T"

fun is_ramp :: "automation_event \<Rightarrow> bool" where
  "is_ramp (SetValue v T) = False"
| "is_ramp (LinearRamp v T) = True"

record audio_param =
  pvalue :: real
  events :: "automation_event list"

definition new_param :: "real \<Rightarrow> audio_param" where
  "new_param v = \<lparr>pvalue = v, events = []\<rparr>"

text \<open>An event is placed in the time-ordered list after the events of the same time.\<close>

fun insert_event :: "automation_event \<Rightarrow> automation_event list \<Rightarrow> automation_event list" where
  "insert_event e [] = [e]"
| "insert_event e (x # xs) =
     (if ev_time x \<le> ev_time e then x # insert_event e xs else e # x # xs)"

text \<open>\<open>param.cancelScheduledValues(cancelTime)\<close> removes every event whose time is
  \<open>cancelTime\<close> or later. (The call throws for a negative time only; context time is never
  negative.)\<close>

definition cancelScheduledValues :: "real \<Rightarrow> audio_param \<Rightarrow> audio_param" where
  "cancelScheduledValues cancelTime p =
     p\<lparr>events := filter (\<lambda>e. ev_time e < cancelTime) (events p)\<rparr>"

text \<open>A ramp to the float32 value \<open>y\<close> enters the timeline at context time \<open>now\<close>: when no
  event precedes the new one, the ramp starts from a set-value event of the current value
  at \<open>now\<close>.\<close>

definition schedule_ramp :: "real \<Rightarrow> real \<Rightarrow> real \<Rightarrow> audio_param \<Rightarrow> audio_param" where
  "schedule_ramp y endTime now p =
     (let es = (if filter (\<lambda>e. ev_time e \<le> endTime) (events p) = []
                then insert_event (SetValue (pvalue p) now) (events p)
                else events p)
      in p\<lparr>events := insert_event (LinearRamp y endTime) es\<rparr>)"

text \<open>\<open>param.linearRampToValueAtTime(v, endTime)\<close>, called at context time \<open>now\<close>: the value
  is converted first, and the call throws, leaving the parameter as it is, when it does not
  convert.\<close>

definition linearRampToValueAtTime ::
  "jsnum \<Rightarrow> real \<Rightarrow> real \<Rightarrow> audio_param \<Rightarrow> error + audio_param" where
  "linearRampToValueAtTime v endTime now p =
     (case to_float v of
        Inl err \<Rightarrow> Inl err
      | Inr y \<Rightarrow> Inr (schedule_ramp y endTime now p))"

text \<open>The value a timeline gives at time \<open>t\<close>, scanning the events in order from the value
  \<open>V0\<close> reached at time \<open>T0\<close>: a set-value event holds its value from its time on, a ramp
  interpolates linearly from the previous event to its own value at its own time.\<close>

fun value_from :: "real \<Rightarrow> real \<Rightarrow> automation_event list \<Rightarrow> real \<Rightarrow> real" where
  "value_from V0 T0 [] t = V0"
| "value_from V0 T0 (SetValue v T # es) t =
     (if t < T then V0 else value_from v T es t)"
| "value_from V0 T0 (LinearRamp v T # es) t =
     (if t < T then V0 + (v - V0) * ((t - T0) / (T - T0)) else value_from v T es t)"

definition value_at :: "audio_param \<Rightarrow> real \<Rightarrow> real" where
  "value_at p t = value_from (pvalue p) 0 (events p) t"

text \<open>Rendering up to time \<open>t\<close> leaves the timeline's value at \<open>t\<close> as the current value.\<close>

definition rendered :: "real \<Rightarrow> audio_param \<Rightarrow> audio_param" where
  "rendered t p = p\<lparr>pvalue := value_at p t\<rparr>"

text \<open>What a ramp scheduled right after a cancel at \<open>now\<close> is appended to: the events the
  cancel leaves, or the set-value event of the current value when it leaves none.\<close>

definition ramp_base :: "real \<Rightarrow> audio_param \<Rightarrow> automation_event list" where
  "ramp_base now p =
     (if filter (\<lambda>e. ev_time e < now) (events p) = [] then [SetValue (pvalue p) now]
      else filter (\<lambda>e. ev_time e < now) (events p))"

subsection \<open>Audio context\<close>

datatype ctx_status = Suspended | Running

datatype request = SuspendRequest | ResumeRequest

record audio_context =
  ctx_state :: ctx_status
  currentTime :: real
  pending :: "request list"

fun target :: "request \<Rightarrow> ctx_status" where
  "target SuspendRequest = Suspended"
| "target ResumeRequest = Running"

text \<open>\<open>ctx.suspend()\<close> and \<open>ctx.resume()\<close> return a promise; the state changes when the
  device acknowledges the request, and stays as it is when the device rejects it.\<close>

definition request :: "request \<Rightarrow> audio_context \<Rightarrow> audio_context" where
  "request r c = c\<lparr>pending := pending c @ [r]\<rparr>"

definition settle :: "error option \<Rightarrow> audio_context \<Rightarrow> audio_context" where
  "settle outcome c =
     (case pending c of
        [] \<Rightarrow> c
      | r # rs \<Rightarrow>
          (case outcome of
             None \<Rightarrow> c\<lparr>ctx_state := target r, pending := rs\<rparr>
           | Some err \<Rightarrow> c\<lparr>pending := rs\<rparr>))"

text \<open>Context time advances only while the context is running.\<close>

definition elapse :: "real \<Rightarrow> audio_context \<Rightarrow> audio_context" where
  "elapse dt c =
     (if ctx_state c = Running \<and> 0 \<le> dt then c\<lparr>currentTime := currentTime c + dt\<rparr> else c)"

subsection \<open>The patch\<close>

datatype media_stream = MediaStream nat

record constraints =
  echoCancellation :: bool
  noiseSuppression :: bool
  autoGainControl :: bool

datatype node = MicNode | ModOsc | ModFreq | ModulationGainNode | MasterGainNode | Destination

datatype param_id = ModOscFrequency | ModFreqOffset | ModulationGain | MasterGain

datatype port = NodeInput node | ParamInput param_id

type_synonym connection = "node \<times> port"

datatype log_item = LogBool bool | LogNum real

text \<open>A text of the page: a string, or a Number converted to a string and followed by a
  string (the template literal of the gain listener; the conversion is the host's).\<close>

datatype label_text = Text string | NumberThen jsnum string

record patch =
  ctx :: audio_context
  micNode :: media_stream
  modOsc_started :: bool
  modOsc_frequency :: audio_param
  modOsc_phase :: real
  modFreq_started :: bool
  modFreq_offset :: audio_param
  modulationGainNode_gain :: audio_param
  masterGainNode_gain :: audio_param
  connections :: "connection list"
  audioOn :: bool
  onOff_innerText :: string
  modLabel_innerText :: label_text
  gainLabel_innerText :: label_text
  console :: "log_item list"
  unhandled :: "error list"

text \<open>What the host decides: whether a new context starts running (autoplay policy) and
  for how long before the first \<open>suspend()\<close> settles, whether that \<open>suspend()\<close> is rejected,
  what \<open>getUserMedia\<close> answers to the constraints it is given, the texts of the page, and
  its value of \<open>10 ** x\<close> for a finite \<open>x\<close> other than zero.\<close>

record env =
  starts_running :: bool
  startup_delay :: real
  suspend_outcome :: "error option"
  getUserMedia :: "constraints \<Rightarrow> error + media_stream"
  button_html :: string
  modLabel_html :: string
  gainLabel_html :: string
  ten_to_the :: "real \<Rightarrow> jsnum"

subsection \<open>Signal flow\<close>

text \<open>The sources connected to a port.\<close>

definition feeds :: "connection list \<Rightarrow> port \<Rightarrow> node list" where
  "feeds cs p = map fst (filter (\<lambda>c. snd c = p) cs)"

text \<open>
  The sample a node puts out at time \<open>t\<close>, for the microphone sample \<open>c\<close>. The oscillator
  puts out the sine of its phase (kept in cycles); an input sums its connections; a
  parameter adds the connections made to it to its automated value; a gain node multiplies
  its input by its gain; a source that was not started is silent. The first argument bounds
  the length of the paths followed.
\<close>

fun node_out :: "nat \<Rightarrow> patch \<Rightarrow> real \<Rightarrow> real \<Rightarrow> node \<Rightarrow> real" where
  "node_out 0 s t c n = 0"
| "node_out (Suc k) s t c MicNode = c"
| "node_out (Suc k) s t c ModOsc = (if modOsc_started s then sin (2 * pi * modOsc_phase s) else 0)"
| "node_out (Suc k) s t c ModFreq =
     (if modFreq_started s
      then value_at (modFreq_offset s) t
           + sum_list (map (node_out k s t c) (feeds (connections s) (ParamInput ModFreqOffset)))
      else 0)"
| "node_out (Suc k) s t c ModulationGainNode =
     sum_list (map (node_out k s t c) (feeds (connections s) (NodeInput ModulationGainNode)))
     * (value_at (modulationGainNode_gain s) t
        + sum_list (map (node_out k s t c) (feeds (connections s) (ParamInput ModulationGain))))"
| "node_out (Suc k) s t c MasterGainNode =
     sum_list (map (node_out k s t c) (feeds (connections s) (NodeInput MasterGainNode)))
     * (value_at (masterGainNode_gain s) t
        + sum_list (map (node_out k s t c) (feeds (connections s) (ParamInput MasterGain))))"
| "node_out (Suc k) s t c Destination =
     sum_list (map (node_out k s t c) (feeds (connections s) (NodeInput Destination)))"

text \<open>The patch has six nodes, so no path without a cycle is longer.\<close>

definition signal :: "patch \<Rightarrow> real \<Rightarrow> real \<Rightarrow> node \<Rightarrow> real" where
  "signal s t c n = node_out 6 s t c n"

text \<open>The frequency the oscillator runs at: its own parameter plus what is connected to it.\<close>

definition oscillator_frequency :: "patch \<Rightarrow> real \<Rightarrow> real \<Rightarrow> real" where
  "oscillator_frequency s t c =
     value_at (modOsc_frequency s) t
     + sum_list (map (signal s t c) (feeds (connections s) (ParamInput ModOscFrequency)))"

text \<open>Nothing reaches the audio sink while the context is suspended.\<close>

definition sink :: "patch \<Rightarrow> real \<Rightarrow> real \<Rightarrow> real" where
  "sink s t c = (if ctx_state (ctx s) = Suspended then 0 else signal s t c Destination)"

subsection \<open>Module evaluation\<close>

text \<open>\<^verbatim>\<open>const liveRingModCtx = new AudioContext();\<close>, followed in \<open>script_js\<close> by
  \<^verbatim>\<open>await liveRingModCtx.suspend();\<close>\<close>

definition new_AudioContext :: "env \<Rightarrow> audio_context" where
  "new_AudioContext e =
     \<lparr>ctx_state = (if starts_running e then Running else Suspended),
      currentTime = 0, pending = []\<rparr>"

text \<open>The constraints of the \<open>getUserMedia\<close> call.\<close>

definition mic_constraints :: constraints where
  "mic_constraints =
     \<lparr>echoCancellation = False, noiseSuppression = False, autoGainControl = False\<rparr>"

text \<open>
  \<^verbatim>\<open>const micNode = new MediaStreamAudioSourceNode(liveRingModCtx, { mediaStream: micInputStream });
  const modOsc = new OscillatorNode(liveRingModCtx, { frequency: 0 });  modOsc.start();
  const modFreq = new ConstantSourceNode(liveRingModCtx, { offset: 5. });  modFreq.start();
  const modulationGainNode = new GainNode(liveRingModCtx, { gain: 0. });
  const masterGainNode = new GainNode(liveRingModCtx, { gain: 1. });
  let audioOn = false;\<close>

  The nodes as constructed, with the connections the script makes (none: the area between
  the node constructions and the listeners is empty), and the first values of the
  listeners' variables.
\<close>

definition construct :: "env \<Rightarrow> audio_context \<Rightarrow> media_stream \<Rightarrow> patch" where
  "construct e c ms =
     \<lparr>ctx = c,
      micNode = ms,
      modOsc_started = True,
      modOsc_frequency = new_param 0,
      modOsc_phase = 0,
      modFreq_started = True,
      modFreq_offset = new_param 5,
      modulationGainNode_gain = new_param 0,
      masterGainNode_gain = new_param 1,
      connections = [],
      audioOn = False,
      onOff_innerText = button_html e,
      modLabel_innerText = Text (modLabel_html e),
      gainLabel_innerText = Text (gainLabel_html e),
      console = [],
      unhandled = []\<rparr>"

text \<open>\<^verbatim>\<open>if (liveRingModCtx.state === "running") { audioOn = true; onOff.innerText = "Off"; }\<close>\<close>

definition startup_check :: "patch \<Rightarrow> patch" where
  "startup_check s =
     (if ctx_state (ctx s) = Running then s\<lparr>audioOn := True, onOff_innerText := ''Off''\<rparr> else s)"

text \<open>The module: a rejected top-level \<open>await\<close> ends the evaluation with its error.\<close>

definition script_js :: "env \<Rightarrow> error + patch" where
  "script_js e =
     (let c0 = elapse (startup_delay e) (request SuspendRequest (new_AudioContext e))
      in case suspend_outcome e of
           Some err \<Rightarrow> Inl err
         | None \<Rightarrow>
             (case getUserMedia e mic_constraints of
                Inl err \<Rightarrow> Inl err
              | Inr ms \<Rightarrow> Inr (startup_check (construct e (settle None c0) ms))))"

subsection \<open>Listeners\<close>

text \<open>
  \<^verbatim>\<open>onOff.addEventListener("click", async () => {
    console.log(audioOn);
    if (audioOn) { onOff.innerText = "Turn Off"; audioOn = false; await liveRingModCtx.suspend(); }
    else { onOff.innerText = "Turn On"; audioOn = true; await liveRingModCtx.resume(); }
  });\<close>

  The click listener up to its \<open>await\<close>: it logs the flag, writes the button text, flips
  the flag and calls \<open>suspend()\<close> or \<open>resume()\<close>.
\<close>

definition onOff_click :: "patch \<Rightarrow> patch" where
  "onOff_click s =
     (let s1 = s\<lparr>console := console s @ [LogBool (audioOn s)]\<rparr>
      in if audioOn s1
         then s1\<lparr>onOff_innerText := ''Turn Off'', audioOn := False,
                 ctx := request SuspendRequest (ctx s1)\<rparr>
         else s1\<lparr>onOff_innerText := ''Turn On'', audioOn := True,
                 ctx := request ResumeRequest (ctx s1)\<rparr>)"

text \<open>The awaited promise settles. Nothing follows the \<open>await\<close> in the listener and nothing
  catches a rejection, which is left unhandled (\<open>unhandled\<close> collects what nothing catches:
  rejections and the exceptions thrown in a listener).\<close>

definition promise_settled :: "error option \<Rightarrow> patch \<Rightarrow> patch" where
  "promise_settled outcome s =
     (if pending (ctx s) = [] then s
      else s\<lparr>ctx := settle outcome (ctx s),
             unhandled := unhandled s @ (case outcome of None \<Rightarrow> [] | Some err \<Rightarrow> [err])\<rparr>)"

text \<open>
  \<^verbatim>\<open>let newModRate = Number(event.target.value);
  modLabel.innerText = (event.target.value, then " Hz");
  let now = liveRingModCtx.currentTime;
  modFreq.offset.cancelScheduledValues(now);
  modFreq.offset.linearRampToValueAtTime(newModRate, now + 0.01);
  console.log(modOsc.frequency.value);\<close>

  The modulation rate slider; \<open>raw\<close> is \<open>event.target.value\<close> and \<open>num\<close> is \<open>Number\<close> of it.
  When the scheduling call throws, the listener ends there: the label is written and the
  cancel is done, no ramp is scheduled and nothing is logged.
\<close>

definition modSlider_input :: "string \<Rightarrow> jsnum \<Rightarrow> patch \<Rightarrow> patch" where
  "modSlider_input raw num s =
     (let newModRate = num;
          now = currentTime (ctx s);
          s1 = s\<lparr>modLabel_innerText := Text (raw @ '' Hz'')\<rparr>;
          s2 = s1\<lparr>modFreq_offset := cancelScheduledValues now (modFreq_offset s1)\<rparr>
      in case linearRampToValueAtTime newModRate (now + 1 / 100) now (modFreq_offset s2) of
           Inl err \<Rightarrow> s2\<lparr>unhandled := unhandled s2 @ [err]\<rparr>
         | Inr p \<Rightarrow>
             (let s3 = s2\<lparr>modFreq_offset := p\<rparr>
              in s3\<lparr>console := console s3 @ [LogNum (pvalue (modOsc_frequency s3))]\<rparr>))"

text \<open>
  \<^verbatim>\<open>let newDBFS = Number(event.target.value);
  gainLabel.innerText = (newDBFS, then " dBFS");
  let now = liveRingModCtx.currentTime;
  masterGainNode.gain.cancelScheduledValues(now);
  masterGainNode.gain.linearRampToValueAtTime(db2a(newDBFS), now + 0.01);\<close>

  The output gain slider, on the host \<open>e\<close>; \<open>raw\<close> is \<open>event.target.value\<close> and \<open>num\<close> is
  \<open>Number\<close> of it.
\<close>

definition gainSlider_input :: "env \<Rightarrow> string \<Rightarrow> jsnum \<Rightarrow> patch \<Rightarrow> patch" where
  "gainSlider_input e raw num s =
     (let newDBFS = num;
          now = currentTime (ctx s);
          s1 = s\<lparr>gainLabel_innerText := NumberThen newDBFS '' dBFS''\<rparr>;
          s2 = s1\<lparr>masterGainNode_gain := cancelScheduledValues now (masterGainNode_gain s1)\<rparr>
      in case linearRampToValueAtTime (db2a (ten_to_the e) newDBFS) (now + 1 / 100) now
                (masterGainNode_gain s2) of
           Inl err \<Rightarrow> s2\<lparr>unhandled := unhandled s2 @ [err]\<rparr>
         | Inr p \<Rightarrow> s2\<lparr>masterGainNode_gain := p\<rparr>)"

text \<open>Context time passes: the oscillator's phase advances by its frequency times the time
  passed (the frequency at the start of the step, the microphone left out: exact as long
  as the frequency does not change during the step), and the parameters are rendered up
  to the new time.\<close>

definition time_passes :: "real \<Rightarrow> patch \<Rightarrow> patch" where
  "time_passes dt s =
     (let c = elapse dt (ctx s); t0 = currentTime (ctx s); t = currentTime c
      in s\<lparr>ctx := c,
            modOsc_phase := modOsc_phase s + (t - t0) * oscillator_frequency s t0 0,
            modOsc_frequency := rendered t (modOsc_frequency s),
            modFreq_offset := rendered t (modFreq_offset s),
            modulationGainNode_gain := rendered t (modulationGainNode_gain s),
            masterGainNode_gain := rendered t (masterGainNode_gain s)\<rparr>)"

text \<open>An input event of a slider carries the slider's value and \<open>Number\<close> of it.\<close>

datatype event = Click | Settled "error option" | ModSliderInput string jsnum
  | GainSliderInput string jsnum | Elapse real

fun step :: "env \<Rightarrow> event \<Rightarrow> patch \<Rightarrow> patch" where
  "step e Click s = onOff_click s"
| "step e (Settled outcome) s = promise_settled outcome s"
| "step e (ModSliderInput raw num) s = modSlider_input raw num s"
| "step e (GainSliderInput raw num) s = gainSlider_input e raw num s"
| "step e (Elapse dt) s = time_passes dt s"

fun run :: "env \<Rightarrow> event list \<Rightarrow> patch \<Rightarrow> patch" where
  "run e [] s = s"
| "run e (ev # evs) s = run e evs (step e ev s)"

subsection \<open>Example hosts\<close>

definition granting :: "constraints \<Rightarrow> error + media_stream" where
  "granting cs = Inr (MediaStream 0)"

definition denying :: "constraints \<Rightarrow> error + media_stream" where
  "denying cs = Inl NotAllowedError"

text \<open>An exponentiation that returns the binary64 number nearest to the power.\<close>

definition nearest_power :: "real \<Rightarrow> jsnum" where
  "nearest_power x = to_double (10 powr x)"

definition page :: env where
  "page = \<lparr>starts_running = False, startup_delay = 0, suspend_outcome = None,
           getUserMedia = granting, button_html = ''On'', modLabel_html = ''5 Hz'',
           gainLabel_html = ''0 dBFS'', ten_to_the = nearest_power\<rparr>"

definition page_patch :: patch where
  "page_patch = construct page (settle None (request SuspendRequest (new_AudioContext page)))
                  (MediaStream 0)"

definition denied_page :: env where
  "denied_page = page\<lparr>getUserMedia := denying\<rparr>"

text \<open>The example page after a click whose \<open>resume()\<close> the device has acknowledged.\<close>

definition playing :: patch where
  "playing = run page [Click, Settled None] page_patch"

section \<open>Properties\<close>

subsection \<open>Rounding\<close>

lemma rne_of_int: "rne (real_of_int k) = k"
  by (simp add: rne_def)

lemma rne_bounds: "\<lfloor>x\<rfloor> \<le> rne x" "rne x \<le> \<lfloor>x\<rfloor> + 1"
  by (simp_all add: rne_def)

lemma rne_mono: "x \<le> y \<Longrightarrow> rne x \<le> rne y"
proof (cases "\<lfloor>x\<rfloor> = \<lfloor>y\<rfloor>")
  case True
  assume "x \<le> y"
  with True have "frac x \<le> frac y" by (simp add: frac_def)
  with True show ?thesis by (auto simp: rne_def)
next
  case False
  assume "x \<le> y"
  then have "\<lfloor>x\<rfloor> \<le> \<lfloor>y\<rfloor>" by (rule floor_mono)
  with False have "\<lfloor>x\<rfloor> + 1 \<le> \<lfloor>y\<rfloor>" by simp
  with rne_bounds(2) [of x] rne_bounds(1) [of y] show ?thesis by linarith
qed



lemma quantum_pos: "0 < quantum p emin x"
  by (simp add: quantum_def)




lemma round_fmt_le:
  assumes "x \<noteq> 0" "x \<le> real_of_int m * quantum p emin x"
  shows "round_fmt p emin x \<le> real_of_int m * quantum p emin x"
proof -
  have "x / quantum p emin x \<le> real_of_int m"
    using assms(2) quantum_pos [of p emin x] by (simp add: pos_divide_le_eq)
  then have "rne (x / quantum p emin x) \<le> m"
    using rne_mono [of "x / quantum p emin x" "real_of_int m"] by (simp add: rne_of_int)
  then have "real_of_int (rne (x / quantum p emin x)) \<le> real_of_int m" by simp
  then show ?thesis
    using assms(1) quantum_pos [of p emin x] by (simp add: round_fmt_def)
qed

lemma round_fmt_ge:
  assumes "x \<noteq> 0" "real_of_int m * quantum p emin x \<le> x"
  shows "real_of_int m * quantum p emin x \<le> round_fmt p emin x"
proof -
  have "real_of_int m \<le> x / quantum p emin x"
    using assms(2) quantum_pos [of p emin x] by (simp add: pos_le_divide_eq)
  then have "m \<le> rne (x / quantum p emin x)"
    using rne_mono [of "real_of_int m" "x / quantum p emin x"] by (simp add: rne_of_int)
  then have "real_of_int m \<le> real_of_int (rne (x / quantum p emin x))" by simp
  then show ?thesis
    using assms(1) quantum_pos [of p emin x] by (simp add: round_fmt_def)
qed

lemma round_fmt_exact:
  assumes "x \<noteq> 0" "x = real_of_int m * quantum p emin x"
  shows "round_fmt p emin x = x"
  using round_fmt_le [OF assms(1), of m p emin] round_fmt_ge [OF assms(1), of m p emin] assms(2)
  by simp

lemma quantum_binade: "quantum p emin x = 2 powr real_of_int (binade emin x - (int p - 1))"
  by (simp add: quantum_def)

lemma pow2_times_quantum:
  "2 ^ n * quantum p emin x = 2 powr real_of_int (binade emin x - (int p - 1) + int n)"
proof -
  have "(2::real) ^ n = 2 powr real_of_int (int n)" by (simp add: powr_realpow)
  then show ?thesis
    by (simp only: quantum_binade powr_add [symmetric] of_int_add) (simp add: add.commute)
qed






lemma round_fmt_zero: "round_fmt p emin 0 = 0"
  by (simp add: round_fmt_def)

lemma round_fmt_pow2:
  assumes "0 < p" "emin \<le> k"
  shows "round_fmt p emin (2 powr real_of_int k) = 2 powr real_of_int k"
proof -
  have "\<lfloor>log 2 (2 powr real_of_int k)\<rfloor> = k" by simp
  then have b: "binade emin (2 powr real_of_int k) = k"
    using assms(2) by (simp add: binade_def)
  have "real_of_int (2 ^ (p - 1)) * quantum p emin (2 powr real_of_int k) = 2 powr real_of_int k"
    using pow2_times_quantum [of "p - 1" p emin "2 powr real_of_int k"] assms(1) by (simp add: b)
  then show ?thesis
    by (intro round_fmt_exact [of _ "2 ^ (p - 1)"]) simp_all
qed

lemma round_fmt_int:
  assumes "0 < p" "emin \<le> 0" "\<bar>n\<bar> < 2 ^ p"
  shows "round_fmt p emin (real_of_int n) = real_of_int n"
proof (cases "n = 0")
  case True
  then show ?thesis by (simp add: round_fmt_zero)
next
  case False
  define k where "k = \<lfloor>log 2 \<bar>real_of_int n\<bar>\<rfloor>"
  have n1: "1 \<le> \<bar>real_of_int n\<bar>" using False by (simp flip: of_int_abs)
  then have "0 \<le> log 2 \<bar>real_of_int n\<bar>" by simp
  then have k0: "0 \<le> k" by (simp add: k_def)
  have "\<bar>real_of_int n\<bar> < 2 ^ p" using assms(3) by (simp flip: of_int_abs)
  then have "\<bar>real_of_int n\<bar> < 2 powr real p" by (simp add: powr_realpow)
  then have "log 2 \<bar>real_of_int n\<bar> < real p"
    using n1 by (simp add: log_less_iff)
  then have kp: "k < int p" by (simp add: k_def floor_less_iff)
  have b: "binade emin (real_of_int n) = k"
    using k0 assms(2) unfolding binade_def k_def by linarith
  define j where "j = nat (int p - 1 - k)"
  have j: "int j = int p - 1 - k" using kp by (simp add: j_def)
  have "2 ^ j * quantum p emin (real_of_int n) = 1"
    using pow2_times_quantum [of j p emin "real_of_int n"] by (simp add: b j)
  then have "real_of_int n = real_of_int (n * 2 ^ j) * quantum p emin (real_of_int n)"
    by simp
  then show ?thesis
    using False by (intro round_fmt_exact [of _ "n * 2 ^ j"]) simp_all
qed


lemma to_double_int:
  assumes "\<bar>n\<bar> < 2 ^ 53"
  shows "to_double (real_of_int n) = Finite (real_of_int n)"
proof -
  have r: "round_fmt 53 (- 1022) (real_of_int n) = real_of_int n"
    using assms by (intro round_fmt_int) simp_all
  have "\<bar>real_of_int n\<bar> < 2 ^ 53" using assms by (simp flip: of_int_abs)
  also have "(2::real) ^ 53 < 2 ^ 1024" by simp
  finally have "\<bar>real_of_int n\<bar> < 2 ^ 1024" .
  then show ?thesis by (simp add: to_double_def r abs_less_iff)
qed

lemma to_float_int:
  assumes "\<bar>n\<bar> < 2 ^ 24"
  shows "to_float (Finite (real_of_int n)) = Inr (real_of_int n)"
proof -
  have r: "round_fmt 24 (- 126) (real_of_int n) = real_of_int n"
    using assms by (intro round_fmt_int) simp_all
  have "\<bar>real_of_int n\<bar> < 2 ^ 24" using assms by (simp flip: of_int_abs)
  also have "(2::real) ^ 24 < 2 ^ 128" by simp
  finally have "\<bar>real_of_int n\<bar> < 2 ^ 128" .
  then show ?thesis by (simp add: to_float_def r)
qed

lemma to_float_nonfinite:
  "to_float NaN = Inl TypeError" "to_float PosInf = Inl TypeError" "to_float NegInf = Inl TypeError"
  by (simp_all add: to_float_def)

lemma to_float_beyond: "to_float (Finite (2 ^ 130)) = Inl TypeError"
proof -
  have "round_fmt 24 (- 126) (2 powr real_of_int 130) = 2 powr real_of_int 130"
    by (intro round_fmt_pow2) simp_all
  then have "round_fmt 24 (- 126) (2 ^ 130) = 2 ^ 130"
    by (simp add: powr_numeral)
  then show ?thesis by (simp add: to_float_def)
qed


lemma pow10_nearest: "pow10 nearest_power (Finite x) = to_double (10 powr x)"
  using to_double_int [of 1] by (simp add: pow10_def nearest_power_def)



lemma db2a_zero: "db2a h (Finite 0) = Finite 1"
  using to_double_int [of 0] by (simp add: db2a_def div20_def pow10_def)

lemma db2a_nonfinite: "db2a h NaN = NaN"
  by (simp add: db2a_def div20_def pow10_def)




lemma db2a_20: "db2a nearest_power (Finite 20) = Finite 10"
proof -
  have "div20 (Finite 20) = Finite 1"
    using to_double_int [of 1] by (simp add: div20_def)
  moreover have "pow10 nearest_power (Finite 1) = Finite 10"
    using to_double_int [of 10] by (simp add: pow10_nearest)
  ultimately show ?thesis by (simp add: db2a_def)
qed

subsection \<open>Scheduling: cancel, then ramp\<close>

lemma insert_event_last:
  "\<forall>x\<in>set es. ev_time x \<le> ev_time e \<Longrightarrow> insert_event e es = es @ [e]"
  by (induction es) auto

lemma ramp_base_times: "e \<in> set (ramp_base now p) \<Longrightarrow> ev_time e \<le> now"
  by (auto simp: ramp_base_def split: if_splits)

lemma ramp_base_nonempty: "ramp_base now p \<noteq> []"
  by (simp add: ramp_base_def)

text \<open>The timeline after the two calls of a slider listener: what lies before \<open>now\<close> (or the
  start supplied for an empty timeline), then the new ramp as the last event.\<close>

lemma reschedule_events:
  "events (schedule_ramp v (now + 1 / 100) now (cancelScheduledValues now p))
     = ramp_base now p @ [LinearRamp v (now + 1 / 100)]"
proof (cases "filter (\<lambda>e. ev_time e < now) (events p) = []")
  case True
  then show ?thesis
    by (simp add: schedule_ramp_def cancelScheduledValues_def ramp_base_def)
next
  case False
  let ?k = "filter (\<lambda>e. ev_time e < now) (events p)"
  have a: "filter (\<lambda>e. ev_time e \<le> now + 1 / 100) ?k = ?k"
    by (rule filter_True) auto
  have b: "insert_event (LinearRamp v (now + 1 / 100)) ?k = ?k @ [LinearRamp v (now + 1 / 100)]"
    by (rule insert_event_last) auto
  show ?thesis using False a b
    by (simp add: schedule_ramp_def cancelScheduledValues_def ramp_base_def)
qed

lemma reschedule_pvalue:
  "pvalue (schedule_ramp v T now (cancelScheduledValues now p)) = pvalue p"
  by (simp add: schedule_ramp_def cancelScheduledValues_def Let_def)

lemma reschedule_pending_ramps:
  "filter (\<lambda>e. is_ramp e \<and> now \<le> ev_time e)
     (events (schedule_ramp v (now + 1 / 100) now (cancelScheduledValues now p)))
   = [LinearRamp v (now + 1 / 100)]"
proof -
  have "filter (\<lambda>e. is_ramp e \<and> now \<le> ev_time e) (ramp_base now p) = []"
    by (auto simp: ramp_base_def filter_empty_conv)
  then show ?thesis by (simp add: reschedule_events)
qed

text \<open>Events that are all in the past of \<open>t\<close> leave the value and time of the last one.\<close>

lemma value_from_past:
  "es \<noteq> [] \<Longrightarrow> \<forall>e\<in>set es. ev_time e \<le> t \<Longrightarrow>
   value_from V0 T0 (es @ rest) t = value_from (ev_value (last es)) (ev_time (last es)) rest t"
proof (induction es arbitrary: V0 T0)
  case Nil
  then show ?case by simp
next
  case (Cons e es)
  show ?case
  proof (cases "es = []")
    case True
    with Cons.prems show ?thesis by (cases e) auto
  next
    case False
    with Cons show ?thesis by (cases e) auto
  qed
qed

lemma value_from_settled:
  "es \<noteq> [] \<Longrightarrow> \<forall>e\<in>set es. ev_time e \<le> t \<Longrightarrow> value_from V0 T0 es t = ev_value (last es)"
  using value_from_past [of es t V0 T0 "[]"] by simp

lemma reschedule_reaches:
  assumes "now + 1 / 100 \<le> t"
  shows "value_at (schedule_ramp v (now + 1 / 100) now (cancelScheduledValues now p)) t
         = v"
proof -
  let ?es = "ramp_base now p @ [LinearRamp v (now + 1 / 100)]"
  have "\<forall>e\<in>set ?es. ev_time e \<le> t"
    using assms ramp_base_times [of _ now p] by fastforce
  then have "value_from (pvalue p) 0 ?es t = ev_value (last ?es)"
    by (intro value_from_settled) simp_all
  then show ?thesis
    by (simp add: value_at_def reschedule_events reschedule_pvalue)
qed

subsection \<open>Listeners and what they leave alone\<close>

lemma modSlider_offset_ok:
  "to_float num = Inr y \<Longrightarrow>
   modFreq_offset (modSlider_input raw num s)
   = schedule_ramp y (currentTime (ctx s) + 1 / 100) (currentTime (ctx s))
       (cancelScheduledValues (currentTime (ctx s)) (modFreq_offset s))"
  by (simp add: modSlider_input_def linearRampToValueAtTime_def Let_def)

lemma modSlider_offset_thrown:
  "to_float num = Inl err \<Longrightarrow>
   modFreq_offset (modSlider_input raw num s)
     = cancelScheduledValues (currentTime (ctx s)) (modFreq_offset s)
   \<and> unhandled (modSlider_input raw num s) = unhandled s @ [err]
   \<and> console (modSlider_input raw num s) = console s"
  by (simp add: modSlider_input_def linearRampToValueAtTime_def Let_def)

lemma gainSlider_gain_ok:
  "to_float (db2a (ten_to_the e) num) = Inr y \<Longrightarrow>
   masterGainNode_gain (gainSlider_input e raw num s)
   = schedule_ramp y (currentTime (ctx s) + 1 / 100) (currentTime (ctx s))
       (cancelScheduledValues (currentTime (ctx s)) (masterGainNode_gain s))"
  by (simp add: gainSlider_input_def linearRampToValueAtTime_def Let_def)

lemma gainSlider_gain_thrown:
  "to_float (db2a (ten_to_the e) num) = Inl err \<Longrightarrow>
   masterGainNode_gain (gainSlider_input e raw num s)
     = cancelScheduledValues (currentTime (ctx s)) (masterGainNode_gain s)
   \<and> unhandled (gainSlider_input e raw num s) = unhandled s @ [err]"
  by (simp add: gainSlider_input_def linearRampToValueAtTime_def Let_def)

lemma modSlider_ctx: "ctx (modSlider_input raw num s) = ctx s"
  by (simp add: modSlider_input_def Let_def split: sum.splits)

lemma rendered_new_param: "rendered t (new_param v) = new_param v"
  by (simp add: rendered_def new_param_def value_at_def)

lemma value_at_new_param: "value_at (new_param v) t = v"
  by (simp add: new_param_def value_at_def)

lemmas listener_defs = onOff_click_def promise_settled_def modSlider_input_def
  gainSlider_input_def time_passes_def Let_def

lemma step_connections: "connections (step e ev s) = connections s"
  by (cases ev) (simp_all add: listener_defs split: sum.splits)

lemma step_depth:
  "modulationGainNode_gain s = new_param 0 \<Longrightarrow> modulationGainNode_gain (step e ev s) = new_param 0"
  by (cases ev) (simp_all add: listener_defs rendered_new_param split: sum.splits)

lemma step_osc_frequency:
  "modOsc_frequency s = new_param 0 \<Longrightarrow> modOsc_frequency (step e ev s) = new_param 0"
  by (cases ev) (simp_all add: listener_defs rendered_new_param split: sum.splits)

lemma feeds_Nil: "feeds [] p = []"
  by (simp add: feeds_def)

lemma oscillator_frequency_unconnected:
  "connections s = [] \<Longrightarrow> modOsc_frequency s = new_param 0 \<Longrightarrow> oscillator_frequency s t c = 0"
  by (simp add: oscillator_frequency_def feeds_Nil value_at_new_param)


lemma run_append: "run e (xs @ ys) s = run e ys (run e xs s)"
  by (induction xs arbitrary: s) simp_all

lemma run_connections: "connections (run e evs s) = connections s"
  by (induction evs arbitrary: s) (simp_all add: step_connections)

lemma run_depth:
  "modulationGainNode_gain s = new_param 0 \<Longrightarrow> modulationGainNode_gain (run e evs s) = new_param 0"
  by (induction evs arbitrary: s) (simp_all add: step_depth)

lemma run_osc_frequency:
  "modOsc_frequency s = new_param 0 \<Longrightarrow> modOsc_frequency (run e evs s) = new_param 0"
  by (induction evs arbitrary: s) (simp_all add: step_osc_frequency)


text \<open>Only a click calls \<open>resume()\<close>: without one, a suspended context with no request in
  flight stays so.\<close>

lemma step_stays_suspended:
  "ev \<noteq> Click \<Longrightarrow> ctx_state (ctx s) = Suspended \<Longrightarrow> pending (ctx s) = [] \<Longrightarrow>
   ctx_state (ctx (step e ev s)) = Suspended \<and> pending (ctx (step e ev s)) = []"
  by (cases ev) (simp_all add: listener_defs elapse_def split: sum.splits)

lemma run_stays_suspended:
  "Click \<notin> set evs \<Longrightarrow> ctx_state (ctx s) = Suspended \<Longrightarrow> pending (ctx s) = [] \<Longrightarrow>
   ctx_state (ctx (run e evs s)) = Suspended"
proof (induction evs arbitrary: s)
  case Nil
  then show ?case by simp
next
  case (Cons ev evs)
  from Cons.prems have "ev \<noteq> Click" "Click \<notin> set evs" by auto
  with Cons.prems step_stays_suspended [of ev s e] Cons.IH [of "step e ev s"] show ?case by simp
qed

subsection \<open>The patch after module evaluation\<close>

lemma script_js_Inr:
  "script_js e = Inr s \<Longrightarrow>
   \<exists>ms. getUserMedia e mic_constraints = Inr ms \<and> suspend_outcome e = None
      \<and> s = construct e (settle None (elapse (startup_delay e)
                 (request SuspendRequest (new_AudioContext e)))) ms
      \<and> ctx_state (ctx s) = Suspended \<and> pending (ctx s) = []"
  by (auto simp: script_js_def construct_def startup_check_def Let_def settle_def request_def
        elapse_def new_AudioContext_def split: option.splits sum.splits if_splits)

lemma script_js_fields:
  assumes "script_js e = Inr s"
  shows "connections s = []" "modOsc_frequency s = new_param 0" "modFreq_offset s = new_param 5"
    "modulationGainNode_gain s = new_param 0" "masterGainNode_gain s = new_param 1"
    "ctx_state (ctx s) = Suspended" "pending (ctx s) = []" "audioOn s = False"
    "getUserMedia e mic_constraints = Inr (micNode s)" "modOsc_phase s = 0"
  using script_js_Inr [OF assms] by (auto simp: construct_def)

lemma page_ok: "script_js page = Inr page_patch"
  by (simp add: script_js_def page_def page_patch_def granting_def startup_check_def
        construct_def settle_def request_def elapse_def new_AudioContext_def)

lemma page_patch_eq:
  "page_patch =
     \<lparr>ctx = \<lparr>ctx_state = Suspended, currentTime = 0, pending = []\<rparr>,
      micNode = MediaStream 0, modOsc_started = True,
      modOsc_frequency = \<lparr>pvalue = 0, events = []\<rparr>, modOsc_phase = 0, modFreq_started = True,
      modFreq_offset = \<lparr>pvalue = 5, events = []\<rparr>,
      modulationGainNode_gain = \<lparr>pvalue = 0, events = []\<rparr>,
      masterGainNode_gain = \<lparr>pvalue = 1, events = []\<rparr>, connections = [],
      audioOn = False, onOff_innerText = ''On'',
      modLabel_innerText = Text ''5 Hz'',
      gainLabel_innerText = Text ''0 dBFS'', console = [], unhandled = []\<rparr>"
  by (simp add: page_def page_patch_def construct_def settle_def request_def
        new_AudioContext_def new_param_def)

lemma page_host: "ten_to_the page = nearest_power"
  by (simp add: page_def)

text \<open>The Numbers of the examples, as float arguments.\<close>

lemma example_floats:
  "to_float (Finite 5) = Inr 5" "to_float (Finite 10) = Inr 10" "to_float (Finite 12) = Inr 12"
  "to_float (Finite 20) = Inr 20" "to_float (Finite 50) = Inr 50"
  "to_float (Finite 100) = Inr 100" "to_float (Finite (- 3)) = Inr (- 3)"
  using to_float_int [of 5] to_float_int [of 10] to_float_int [of 12] to_float_int [of 20]
    to_float_int [of 50] to_float_int [of 100] to_float_int [of "- 3"]
  by simp_all

lemmas page_eval = page_patch_eq page_host onOff_click_def promise_settled_def
  modSlider_input_def gainSlider_input_def time_passes_def elapse_def settle_def request_def
  linearRampToValueAtTime_def schedule_ramp_def cancelScheduledValues_def rendered_def
  value_at_def new_param_def Let_def oscillator_frequency_def feeds_def example_floats
  to_float_nonfinite to_float_beyond db2a_nonfinite db2a_20 db2a_zero

subsection \<open>Signal flow\<close>



text \<open>For comparison, a patch wired as a ring modulator (microphone into the modulation gain
  node, oscillator into that node's gain, then through the master gain to the destination)
  puts out the product of the carrier with the depth plus the modulator, times the output
  gain.\<close>

lemma signal_when_wired:
  assumes "connections s = [(MicNode, NodeInput ModulationGainNode),
                            (ModOsc, ParamInput ModulationGain),
                            (ModulationGainNode, NodeInput MasterGainNode),
                            (MasterGainNode, NodeInput Destination)]"
    and "modOsc_started s"
  shows "signal s t c Destination
         = c * (value_at (modulationGainNode_gain s) t + sin (2 * pi * modOsc_phase s))
           * value_at (masterGainNode_gain s) t"
  using assms by (simp add: signal_def feeds_def numeral_eq_Suc)

lemma playing_eq:
  "playing =
     \<lparr>ctx = \<lparr>ctx_state = Running, currentTime = 0, pending = []\<rparr>,
      micNode = MediaStream 0, modOsc_started = True,
      modOsc_frequency = \<lparr>pvalue = 0, events = []\<rparr>, modOsc_phase = 0, modFreq_started = True,
      modFreq_offset = \<lparr>pvalue = 5, events = []\<rparr>,
      modulationGainNode_gain = \<lparr>pvalue = 0, events = []\<rparr>,
      masterGainNode_gain = \<lparr>pvalue = 1, events = []\<rparr>, connections = [],
      audioOn = True, onOff_innerText = ''Turn On'',
      modLabel_innerText = Text ''5 Hz'',
      gainLabel_innerText = Text ''0 dBFS'', console = [LogBool False], unhandled = []\<rparr>"
  by (simp add: playing_def page_eval)

subsection \<open>What the two scheduling calls leave in the timeline\<close>

lemma earlier_events_kept:
  "filter (\<lambda>a. ev_time a < now)
     (events (schedule_ramp y (now + 1 / 100) now (cancelScheduledValues now p)))
   = filter (\<lambda>a. ev_time a < now) (events p)"
  by (simp add: reschedule_events ramp_base_def)

lemma cancelled_events:
  "events (cancelScheduledValues now p) = filter (\<lambda>a. ev_time a < now) (events p)"
  by (simp add: cancelScheduledValues_def)

lemma to_float_Inr_iff:
  "to_float v = Inr y \<longleftrightarrow>
   (\<exists>x. v = Finite x \<and> \<bar>round_fmt 24 (- 126) x\<bar> < 2 ^ 128 \<and> y = round_fmt 24 (- 126) x)"
  by (auto simp: to_float_def Let_def split: jsnum.splits)

lemma to_float_Inl_iff:
  "to_float v = Inl TypeError \<longleftrightarrow>
   (v = NaN \<or> v = PosInf \<or> v = NegInf
    \<or> (\<exists>x. v = Finite x \<and> 2 ^ 128 \<le> \<bar>round_fmt 24 (- 126) x\<bar>))"
  by (auto simp: to_float_def Let_def split: jsnum.splits)

lemma nothing_pending_after_cancel:
  "filter (\<lambda>a. now \<le> ev_time a) (events (cancelScheduledValues now p)) = []"
  by (auto simp: cancelScheduledValues_def filter_empty_conv)

lemma example_rounded:
  "round_fmt 24 (- 126) (- 3) = - 3" "round_fmt 24 (- 126) 10 = 10"
  using round_fmt_int [of 24 "- 126" "- 3"] round_fmt_int [of 24 "- 126" 10] by simp_all

section \<open>The claims\<close>

subsection \<open>C1: output of the ring modulator stage\<close>



subsection \<open>C2: what a control update schedules\<close>

text \<open>
  C2, as stated: every update of one of three parameters, the modulation depth among them,
  cancels and then ramps from the parameter's instantaneous value. Two things fail. No
  listener touches the modulation depth: after a rate update, a gain update and a click its
  parameter is as constructed. And the ramp does not start at the instantaneous value: one
  second after a first update to 10 Hz the offset is 10, and a second update to 20 Hz puts
  the timeline's value at that very instant to 19.9.
\<close>

theorem update_counterexample:
  "modulationGainNode_gain
     (run page [ModSliderInput ''12'' (Finite 12), GainSliderInput ''20'' (Finite 20), Click]
        page_patch)
     = \<lparr>pvalue = 0, events = []\<rparr>
   \<and> value_at (modFreq_offset
        (run page [Click, Settled None, ModSliderInput ''10'' (Finite 10), Elapse 1] page_patch)) 1
     = 10
   \<and> value_at (modFreq_offset
        (run page [Click, Settled None, ModSliderInput ''10'' (Finite 10), Elapse 1,
                   ModSliderInput ''20'' (Finite 20)] page_patch)) 1
     = 199 / 10"
  by (simp add: page_eval)

text \<open>
  C2, amended: an update of the oscillator rate (the offset of the constant source) or of
  the output gain, the two parameters that have a listener, first cancels what is scheduled
  on the parameter from the current context time on; then, when the target (the input for
  the rate, \<open>db2a\<close> of the input for the gain) converts to a float32 value, it schedules a
  linear ramp that reaches that value exactly 10 ms later, the only ramp then pending, and
  leaves the earlier events as they were; when the target does not convert, the scheduling
  call throws after the cancel and no ramp is scheduled. No listener changes the modulation
  depth.
\<close>

theorem update_cancels_then_ramps:
  assumes "now = currentTime (ctx s)"
  shows
    "(to_float num = Inr y \<longrightarrow>
        filter (\<lambda>a. ev_time a < now) (events (modFreq_offset (modSlider_input raw num s)))
          = filter (\<lambda>a. ev_time a < now) (events (modFreq_offset s))
      \<and> filter (\<lambda>a. is_ramp a \<and> now \<le> ev_time a)
            (events (modFreq_offset (modSlider_input raw num s)))
          = [LinearRamp y (now + 1 / 100)]
      \<and> value_at (modFreq_offset (modSlider_input raw num s)) (now + 1 / 100) = y)
   \<and> (to_float num = Inl err \<longrightarrow>
        events (modFreq_offset (modSlider_input raw num s))
          = filter (\<lambda>a. ev_time a < now) (events (modFreq_offset s))
      \<and> unhandled (modSlider_input raw num s) = unhandled s @ [err])
   \<and> (to_float (db2a (ten_to_the e) num) = Inr y \<longrightarrow>
        filter (\<lambda>a. ev_time a < now) (events (masterGainNode_gain (gainSlider_input e raw num s)))
          = filter (\<lambda>a. ev_time a < now) (events (masterGainNode_gain s))
      \<and> filter (\<lambda>a. is_ramp a \<and> now \<le> ev_time a)
            (events (masterGainNode_gain (gainSlider_input e raw num s)))
          = [LinearRamp y (now + 1 / 100)]
      \<and> value_at (masterGainNode_gain (gainSlider_input e raw num s)) (now + 1 / 100) = y)
   \<and> (to_float (db2a (ten_to_the e) num) = Inl err \<longrightarrow>
        events (masterGainNode_gain (gainSlider_input e raw num s))
          = filter (\<lambda>a. ev_time a < now) (events (masterGainNode_gain s))
      \<and> unhandled (gainSlider_input e raw num s) = unhandled s @ [err])
   \<and> modulationGainNode_gain (modSlider_input raw num s) = modulationGainNode_gain s
   \<and> modulationGainNode_gain (gainSlider_input e raw num s) = modulationGainNode_gain s
   \<and> modulationGainNode_gain (onOff_click s) = modulationGainNode_gain s"
proof -
  have depth: "modulationGainNode_gain (modSlider_input raw num s) = modulationGainNode_gain s"
    "modulationGainNode_gain (gainSlider_input e raw num s) = modulationGainNode_gain s"
    "modulationGainNode_gain (onOff_click s) = modulationGainNode_gain s"
    by (simp_all add: listener_defs split: sum.splits)
  show ?thesis
    unfolding assms
    by (simp add: depth modSlider_offset_ok modSlider_offset_thrown gainSlider_gain_ok
          gainSlider_gain_thrown earlier_events_kept reschedule_pending_ramps
          reschedule_reaches cancelled_events)
qed

text \<open>
  C2, amended, on the playing example page: a rate of 12 Hz, a rate beyond float32, a level
  of 20 dBFS, and a level that is not a number.
\<close>

theorem update_cancels_then_ramps_witness:
  "0 = currentTime (ctx playing)
   \<and> to_float (Finite 12) = Inr 12
   \<and> value_at (modFreq_offset (modSlider_input ''12'' (Finite 12) playing)) (0 + 1 / 100) = 12
   \<and> to_float (Finite (2 ^ 130)) = Inl TypeError
   \<and> events (modFreq_offset (modSlider_input ''1.3611294676837539e+39'' (Finite (2 ^ 130)) playing))
     = []
   \<and> unhandled (modSlider_input ''1.3611294676837539e+39'' (Finite (2 ^ 130)) playing)
     = [TypeError]
   \<and> to_float (db2a (ten_to_the page) (Finite 20)) = Inr 10
   \<and> value_at (masterGainNode_gain (gainSlider_input page ''20'' (Finite 20) playing))
        (0 + 1 / 100) = 10
   \<and> to_float (db2a (ten_to_the page) NaN) = Inl TypeError
   \<and> unhandled (gainSlider_input page ''abc'' NaN playing) = [TypeError]"
proof -
  have n: "0 = currentTime (ctx playing)" by (simp add: playing_eq)
  have a: "to_float (Finite 12) = Inr 12" by (simp add: example_floats)
  have b: "to_float (Finite (2 ^ 130)) = Inl TypeError" by (rule to_float_beyond)
  have c: "to_float (db2a (ten_to_the page) (Finite 20)) = Inr 10"
    by (simp add: page_host db2a_20 example_floats)
  have d: "to_float (db2a (ten_to_the page) NaN) = Inl TypeError"
    by (simp add: db2a_nonfinite to_float_nonfinite)
  have u: "unhandled playing = []" "events (modFreq_offset playing) = []"
    by (simp_all add: playing_eq)
  show ?thesis
    using update_cancels_then_ramps [OF n, where num = "Finite 12" and y = 12 and raw = "''12''"]
      update_cancels_then_ramps [OF n, where num = "Finite (2 ^ 130)"
        and raw = "''1.3611294676837539e+39''" and err = TypeError]
      update_cancels_then_ramps [OF n, where e = page and num = "Finite 20" and y = 10
        and raw = "''20''"]
      update_cancels_then_ramps [OF n, where e = page and num = NaN and raw = "''abc''"
        and err = TypeError]
      n a b c d u
    by simp
qed

subsection \<open>C3: decibels to linear gain\<close>




subsection \<open>C4: a rejected suspend or resume\<close>

text \<open>
  C4, as stated: when the device rejects the request of a toggle, the flag and the button
  text are left unchanged. They are not: on the example page a click whose \<open>resume()\<close> is
  rejected leaves the flag set and the text rewritten.
\<close>

theorem rejected_toggle_counterexample:
  "audioOn (run page [Click, Settled (Some InvalidStateError)] page_patch) \<noteq> audioOn page_patch
   \<and> onOff_innerText (run page [Click, Settled (Some InvalidStateError)] page_patch)
     \<noteq> onOff_innerText page_patch"
  by (simp add: page_eval)

text \<open>
  C4, amended: when the device rejects the \<open>suspend()\<close> or \<open>resume()\<close> of a toggle, the
  context keeps its state, but the listener has already flipped the flag and rewritten the
  button text, and they stay so; the rejection is left unhandled, and the next toggle
  requests the opposite transition.
\<close>

theorem rejected_toggle_already_flipped:
  "audioOn (promise_settled (Some err) (onOff_click s)) = (\<not> audioOn s)
   \<and> onOff_innerText (promise_settled (Some err) (onOff_click s))
     = (if audioOn s then ''Turn Off'' else ''Turn On'')
   \<and> ctx_state (ctx (promise_settled (Some err) (onOff_click s))) = ctx_state (ctx s)
   \<and> unhandled (promise_settled (Some err) (onOff_click s)) = unhandled s @ [err]
   \<and> last (pending (ctx (onOff_click (promise_settled (Some err) (onOff_click s)))))
     = (if audioOn s then ResumeRequest else SuspendRequest)"
  by (simp add: onOff_click_def promise_settled_def settle_def request_def Let_def
        split: list.splits)

subsection \<open>C5: the state after construction\<close>

text \<open>
  C5. After module evaluation the context is suspended and nothing reaches the sink, the
  offset of the constant source is 5, the modulation depth is 0 and the output gain is 1,
  the gain of 0 dBFS; as long as no click has called \<open>resume()\<close>, the context stays suspended
  and the sink silent.
\<close>

theorem initial_state:
  assumes "script_js e = Inr s" and "Click \<notin> set evs"
  shows "ctx_state (ctx s) = Suspended
         \<and> sink s t c = 0
         \<and> modFreq_offset s = \<lparr>pvalue = 5, events = []\<rparr> \<and> value_at (modFreq_offset s) t = 5
         \<and> modulationGainNode_gain s = \<lparr>pvalue = 0, events = []\<rparr>
         \<and> value_at (modulationGainNode_gain s) t = 0
         \<and> masterGainNode_gain s = \<lparr>pvalue = 1, events = []\<rparr>
         \<and> value_at (masterGainNode_gain s) t = 1
         \<and> db2a (ten_to_the e) (Finite 0) = Finite 1
         \<and> ctx_state (ctx (run e evs s)) = Suspended \<and> sink (run e evs s) t c = 0"
proof -
  note f = script_js_fields [OF assms(1)]
  have "ctx_state (ctx (run e evs s)) = Suspended"
    using assms(2) f(6) f(7) by (rule run_stays_suspended)
  then show ?thesis
    using f by (simp add: sink_def value_at_new_param db2a_zero) (simp add: new_param_def)
qed

text \<open>
  C5 on the example page, with a slider moved before any click.
\<close>

theorem initial_state_witness:
  "script_js page = Inr page_patch
   \<and> Click \<notin> set [ModSliderInput ''12'' (Finite 12), Elapse 1, Settled None]
   \<and> ctx_state (ctx page_patch) = Suspended \<and> sink page_patch 0 1 = 0
   \<and> value_at (modFreq_offset page_patch) 0 = 5
   \<and> value_at (modulationGainNode_gain page_patch) 0 = 0
   \<and> value_at (masterGainNode_gain page_patch) 0 = 1
   \<and> ctx_state (ctx (run page [ModSliderInput ''12'' (Finite 12), Elapse 1, Settled None]
        page_patch)) = Suspended"
proof -
  have h: "Click \<notin> set [ModSliderInput ''12'' (Finite 12), Elapse 1, Settled None]" by simp
  show ?thesis
    using initial_state [OF page_ok h, where t = 0 and c = 1] page_ok h
    by (simp add: value_at_def)
qed

subsection \<open>C6: two rate updates in quick succession\<close>

text \<open>
  C6, as stated: after two rate updates the oscillator frequency converges to the second
  target, never overshooting. Two things fail. The constant source is not connected to the
  oscillator's frequency, which stays at 0 after updates to 5 Hz and then 12 Hz. And the
  offset itself overshoots: 5 ms after an update to 100 Hz it is 52.5, and an update to
  50 Hz at that instant drops it to 20, below the target.
\<close>

theorem second_update_counterexample:
  "oscillator_frequency
     (run page [Click, Settled None, ModSliderInput ''5'' (Finite 5), Elapse (1 / 200),
                ModSliderInput ''12'' (Finite 12), Elapse (1 / 100)] page_patch) (3 / 200) 1 \<noteq> 12
   \<and> value_at (modFreq_offset
        (run page [Click, Settled None, ModSliderInput ''100'' (Finite 100), Elapse (1 / 200)]
           page_patch)) (1 / 200) = 105 / 2
   \<and> value_at (modFreq_offset
        (run page [Click, Settled None, ModSliderInput ''100'' (Finite 100), Elapse (1 / 200),
                   ModSliderInput ''50'' (Finite 50)] page_patch)) (1 / 200) = 20"
  by (simp add: page_eval)

text \<open>
  C6, amended: after two rate updates, however shortly the second follows the first, when
  the second target converts to a float32 value, the only ramp scheduled on the offset of
  the constant source from the time \<open>t2\<close> of the second update on is the second one, and the
  offset is at the second target from 10 ms after \<open>t2\<close> on, not at a value left over from the
  cancelled ramp. The oscillator's own frequency is not driven by the offset and stays 0.
\<close>

theorem second_update_supersedes:
  assumes "script_js e = Inr s0"
    and "s = run e (evs @ [ModSliderInput raw1 num1, Elapse dt, ModSliderInput raw2 num2]) s0"
    and "t2 = currentTime (ctx s)"
    and "to_float num2 = Inr y2"
    and "t2 + 1 / 100 \<le> t"
  shows "filter (\<lambda>a. is_ramp a \<and> t2 \<le> ev_time a) (events (modFreq_offset s))
           = [LinearRamp y2 (t2 + 1 / 100)]
         \<and> value_at (modFreq_offset s) t = y2
         \<and> oscillator_frequency s t c = 0"
proof -
  define s1 where "s1 = run e (evs @ [ModSliderInput raw1 num1, Elapse dt]) s0"
  have s: "s = modSlider_input raw2 num2 s1"
    using assms(2) by (simp add: s1_def run_append)
  have t2: "t2 = currentTime (ctx s1)"
    using assms(3) s by (simp add: modSlider_ctx)
  have off: "modFreq_offset s
             = schedule_ramp y2 (t2 + 1 / 100) t2 (cancelScheduledValues t2 (modFreq_offset s1))"
    using s t2 assms(4) by (simp add: modSlider_offset_ok)
  note f = script_js_fields [OF assms(1)]
  have "connections s = []"
    using assms(2) f(1) by (simp add: run_connections)
  moreover have "modOsc_frequency s = new_param 0"
    using assms(2) f(2) by (simp add: run_osc_frequency)
  ultimately have osc: "oscillator_frequency s t c = 0"
    by (simp add: oscillator_frequency_unconnected)
  show ?thesis
    using osc assms(5) by (simp add: off reschedule_pending_ramps reschedule_reaches)
qed

text \<open>
  C6, amended, on the example page: 100 Hz, then 50 Hz five milliseconds later.
\<close>

theorem second_update_supersedes_witness:
  "script_js page = Inr page_patch
   \<and> currentTime (ctx (run page ([Click, Settled None] @ [ModSliderInput ''100'' (Finite 100),
        Elapse (1 / 200), ModSliderInput ''50'' (Finite 50)]) page_patch)) = 1 / 200
   \<and> to_float (Finite 50) = Inr 50
   \<and> 1 / 200 + 1 / 100 \<le> (3 / 200 :: real)
   \<and> value_at (modFreq_offset (run page ([Click, Settled None] @ [ModSliderInput ''100''
        (Finite 100), Elapse (1 / 200), ModSliderInput ''50'' (Finite 50)]) page_patch)) (3 / 200)
     = 50
   \<and> oscillator_frequency (run page ([Click, Settled None] @ [ModSliderInput ''100'' (Finite 100),
        Elapse (1 / 200), ModSliderInput ''50'' (Finite 50)]) page_patch) (3 / 200) 1 = 0"
proof -
  have t: "1 / 200 = currentTime (ctx (run page ([Click, Settled None] @ [ModSliderInput ''100''
             (Finite 100), Elapse (1 / 200), ModSliderInput ''50'' (Finite 50)]) page_patch))"
    by (simp add: page_eval)
  have f: "to_float (Finite 50) = Inr 50" by (simp add: example_floats)
  have h: "1 / 200 + 1 / 100 \<le> (3 / 200 :: real)" by simp
  show ?thesis
    using second_update_supersedes [OF page_ok refl t f h, of 1] page_ok t f by simp
qed

subsection \<open>C7: out-of-range input\<close>

text \<open>
  C7, as stated: an out-of-range input such as a negative rate is rejected or clamped
  before a ramp is scheduled. It is not: for the input \<open>-3\<close> the rate listener schedules a
  ramp to \<open>-3\<close>.
\<close>

theorem negative_rate_counterexample:
  "LinearRamp (- 3) (1 / 100)
   \<in> set (events (modFreq_offset (modSlider_input ''-3'' (Finite (- 3)) page_patch)))"
  by (simp add: page_eval)

text \<open>
  C7, amended: the listeners neither reject nor clamp. A target within the float32 range
  (the input for the rate, a negative one included; \<open>db2a\<close> of the input for the gain) is
  handed over as it is and the ramp is scheduled to its float32 value. A target that is
  NaN, infinite or beyond the float32 range is refused by the scheduling call itself, which
  throws after the cancel: nothing is then scheduled from the current time on, so no ramp
  is ever scheduled to a value that is not finite.
\<close>

theorem input_handed_over_or_refused:
  assumes "now = currentTime (ctx s)" and "gain = db2a (ten_to_the e) num"
  shows
    "(num = Finite x \<and> \<bar>round_fmt 24 (- 126) x\<bar> < 2 ^ 128 \<longrightarrow>
        last (events (modFreq_offset (modSlider_input raw num s)))
          = LinearRamp (round_fmt 24 (- 126) x) (now + 1 / 100))
   \<and> (num = NaN \<or> num = PosInf \<or> num = NegInf
        \<or> (\<exists>z. num = Finite z \<and> 2 ^ 128 \<le> \<bar>round_fmt 24 (- 126) z\<bar>) \<longrightarrow>
        filter (\<lambda>a. now \<le> ev_time a) (events (modFreq_offset (modSlider_input raw num s))) = []
        \<and> unhandled (modSlider_input raw num s) = unhandled s @ [TypeError])
   \<and> (gain = Finite x \<and> \<bar>round_fmt 24 (- 126) x\<bar> < 2 ^ 128 \<longrightarrow>
        last (events (masterGainNode_gain (gainSlider_input e raw num s)))
          = LinearRamp (round_fmt 24 (- 126) x) (now + 1 / 100))
   \<and> (gain = NaN \<or> gain = PosInf \<or> gain = NegInf
        \<or> (\<exists>z. gain = Finite z \<and> 2 ^ 128 \<le> \<bar>round_fmt 24 (- 126) z\<bar>) \<longrightarrow>
        filter (\<lambda>a. now \<le> ev_time a)
          (events (masterGainNode_gain (gainSlider_input e raw num s))) = []
        \<and> unhandled (gainSlider_input e raw num s) = unhandled s @ [TypeError])"
proof -
  have ok: "\<And>v. v = Finite x \<and> \<bar>round_fmt 24 (- 126) x\<bar> < 2 ^ 128 \<Longrightarrow>
              to_float v = Inr (round_fmt 24 (- 126) x)"
    by (simp add: to_float_Inr_iff)
  have no: "\<And>v. v = NaN \<or> v = PosInf \<or> v = NegInf
              \<or> (\<exists>z. v = Finite z \<and> 2 ^ 128 \<le> \<bar>round_fmt 24 (- 126) z\<bar>) \<Longrightarrow>
              to_float v = Inl TypeError"
    by (simp add: to_float_Inl_iff)
  have a: "num = Finite x \<and> \<bar>round_fmt 24 (- 126) x\<bar> < 2 ^ 128 \<longrightarrow>
        last (events (modFreq_offset (modSlider_input raw num s)))
          = LinearRamp (round_fmt 24 (- 126) x) (now + 1 / 100)"
    using ok [of num] by (auto simp: assms(1) modSlider_offset_ok reschedule_events)
  have b: "num = NaN \<or> num = PosInf \<or> num = NegInf
        \<or> (\<exists>z. num = Finite z \<and> 2 ^ 128 \<le> \<bar>round_fmt 24 (- 126) z\<bar>) \<longrightarrow>
        filter (\<lambda>a. now \<le> ev_time a) (events (modFreq_offset (modSlider_input raw num s))) = []
        \<and> unhandled (modSlider_input raw num s) = unhandled s @ [TypeError]"
    using no [of num]
    by (auto simp: assms(1) modSlider_offset_thrown nothing_pending_after_cancel
          simp del: filter_False)
  have c: "gain = Finite x \<and> \<bar>round_fmt 24 (- 126) x\<bar> < 2 ^ 128 \<longrightarrow>
        last (events (masterGainNode_gain (gainSlider_input e raw num s)))
          = LinearRamp (round_fmt 24 (- 126) x) (now + 1 / 100)"
    using ok [of gain] by (auto simp: assms gainSlider_gain_ok reschedule_events)
  have d: "gain = NaN \<or> gain = PosInf \<or> gain = NegInf
        \<or> (\<exists>z. gain = Finite z \<and> 2 ^ 128 \<le> \<bar>round_fmt 24 (- 126) z\<bar>) \<longrightarrow>
        filter (\<lambda>a. now \<le> ev_time a)
          (events (masterGainNode_gain (gainSlider_input e raw num s))) = []
        \<and> unhandled (gainSlider_input e raw num s) = unhandled s @ [TypeError]"
    using no [of gain]
    by (auto simp: assms gainSlider_gain_thrown nothing_pending_after_cancel
          simp del: filter_False)
  from a b c d show ?thesis by blast
qed

text \<open>
  C7, amended, on the example page: the rate \<open>-3\<close>, a rate that is not a number, the level
  20 dBFS, and a level that is not a number.
\<close>

theorem input_handed_over_or_refused_witness:
  "0 = currentTime (ctx page_patch)
   \<and> \<bar>round_fmt 24 (- 126) (- 3)\<bar> < 2 ^ 128
   \<and> last (events (modFreq_offset (modSlider_input ''-3'' (Finite (- 3)) page_patch)))
     = LinearRamp (- 3) (0 + 1 / 100)
   \<and> filter (\<lambda>a. 0 \<le> ev_time a) (events (modFreq_offset (modSlider_input ''abc'' NaN page_patch)))
     = []
   \<and> unhandled (modSlider_input ''abc'' NaN page_patch) = [TypeError]
   \<and> Finite 10 = db2a (ten_to_the page) (Finite 20)
   \<and> \<bar>round_fmt 24 (- 126) 10\<bar> < 2 ^ 128
   \<and> last (events (masterGainNode_gain (gainSlider_input page ''20'' (Finite 20) page_patch)))
     = LinearRamp 10 (0 + 1 / 100)
   \<and> NaN = db2a (ten_to_the page) NaN
   \<and> unhandled (gainSlider_input page ''abc'' NaN page_patch) = [TypeError]"
proof -
  have n: "0 = currentTime (ctx page_patch)" by (simp add: page_patch_eq)
  have g20: "Finite 10 = db2a (ten_to_the page) (Finite 20)" by (simp add: page_host db2a_20)
  have gn: "NaN = db2a (ten_to_the page) NaN" by (simp add: db2a_nonfinite)
  have u: "unhandled page_patch = []" by (simp add: page_patch_eq)
  show ?thesis
    using input_handed_over_or_refused [OF n g20, where x = 10 and raw = "''20''"]
      input_handed_over_or_refused [OF n gn, where raw = "''abc''"]
      input_handed_over_or_refused [OF n refl, where num = "Finite (- 3)" and x = "- 3"
        and raw = "''-3''"]
      n g20 gn u
    by (simp add: example_rounded)
qed

subsection \<open>C8: the carrier request\<close>

text \<open>
  C8. The microphone stream is requested with echo cancellation, noise suppression and
  automatic gain control all off, and the stream of the microphone node is the one that
  request returned; when the request fails, module evaluation fails, with the request's own
  error when the preceding \<open>suspend()\<close> succeeded, and no patch is built.
\<close>

theorem carrier_request_and_failure:
  "\<not> echoCancellation mic_constraints \<and> \<not> noiseSuppression mic_constraints
   \<and> \<not> autoGainControl mic_constraints
   \<and> (script_js e = Inr s \<longrightarrow> getUserMedia e mic_constraints = Inr (micNode s))
   \<and> (getUserMedia e mic_constraints = Inl err \<longrightarrow>
        (\<exists>err'. script_js e = Inl err') \<and> (suspend_outcome e = None \<longrightarrow> script_js e = Inl err))"
proof -
  have "script_js e = Inr s \<longrightarrow> getUserMedia e mic_constraints = Inr (micNode s)"
    using script_js_fields(9) by blast
  moreover have "getUserMedia e mic_constraints = Inl err \<longrightarrow>
        (\<exists>err'. script_js e = Inl err') \<and> (suspend_outcome e = None \<longrightarrow> script_js e = Inl err)"
    by (simp add: script_js_def Let_def split: option.splits)
  ultimately show ?thesis by (simp add: mic_constraints_def)
qed

text \<open>
  C8 on the example page, and on the same page with the microphone denied.
\<close>

theorem carrier_request_and_failure_witness:
  "script_js page = Inr page_patch
   \<and> getUserMedia page mic_constraints = Inr (micNode page_patch)
   \<and> getUserMedia denied_page mic_constraints = Inl NotAllowedError
   \<and> suspend_outcome denied_page = None
   \<and> script_js denied_page = Inl NotAllowedError"
proof -
  have d: "getUserMedia denied_page mic_constraints = Inl NotAllowedError"
    by (simp add: denied_page_def denying_def)
  have n: "suspend_outcome denied_page = None"
    by (simp add: denied_page_def page_def)
  show ?thesis
    using carrier_request_and_failure [of page page_patch]
      carrier_request_and_failure [of denied_page _ NotAllowedError]
      page_ok d n
    by simp
qed

subsection \<open>C9: the modulation depth is never modified\<close>

text \<open>
  C9. After module evaluation and any sequence of clicks, settled promises, slider inputs
  and passing time, the gain parameter of the modulation gain node is as constructed: value
  0, nothing scheduled, so its value is 0 at every time.
\<close>

theorem depth_never_modified:
  assumes "script_js e = Inr s"
  shows "modulationGainNode_gain (run e evs s) = \<lparr>pvalue = 0, events = []\<rparr>
         \<and> value_at (modulationGainNode_gain (run e evs s)) t = 0"
proof -
  have "modulationGainNode_gain (run e evs s) = new_param 0"
    using script_js_fields(4) [OF assms] by (rule run_depth)
  then show ?thesis by (simp add: value_at_new_param) (simp add: new_param_def)
qed

text \<open>
  C9 on the example page, after every kind of event.
\<close>

theorem depth_never_modified_witness:
  "script_js page = Inr page_patch
   \<and> modulationGainNode_gain
       (run page [Click, Settled None, ModSliderInput ''12'' (Finite 12), Elapse (1 / 2),
                  GainSliderInput ''-6'' (Finite (- 6)), Click, Settled None] page_patch)
     = \<lparr>pvalue = 0, events = []\<rparr>"
  using depth_never_modified [OF page_ok,
      where evs = "[Click, Settled None, ModSliderInput ''12'' (Finite 12), Elapse (1 / 2),
                    GainSliderInput ''-6'' (Finite (- 6)), Click, Settled None]"] page_ok
  by simp

subsection \<open>C10: what a click writes, and when\<close>

text \<open>
  C10. The click listener flips the flag and writes the button text before its promise
  settles: right after the synchronous part the context state is unchanged and the request
  is still pending, and settling changes neither flag nor text. The text is \<open>Turn Off\<close> when
  the click stops the audio and \<open>Turn On\<close> when it starts it, whereas the check at startup
  writes \<open>Off\<close> for a context found running.
\<close>

theorem click_writes_before_await:
  "audioOn (onOff_click s) = (\<not> audioOn s)
   \<and> onOff_innerText (onOff_click s) = (if audioOn s then ''Turn Off'' else ''Turn On'')
   \<and> ctx_state (ctx (onOff_click s)) = ctx_state (ctx s)
   \<and> pending (ctx (onOff_click s))
     = pending (ctx s) @ [if audioOn s then SuspendRequest else ResumeRequest]
   \<and> audioOn (promise_settled outcome (onOff_click s)) = audioOn (onOff_click s)
   \<and> onOff_innerText (promise_settled outcome (onOff_click s)) = onOff_innerText (onOff_click s)
   \<and> (ctx_state (ctx s) = Running \<longrightarrow>
        audioOn (startup_check s) \<and> onOff_innerText (startup_check s) = ''Off'')"
  by (simp add: onOff_click_def promise_settled_def request_def startup_check_def Let_def)

text \<open>
  C10 on the example page, before and after the audio was turned on.
\<close>

theorem click_writes_before_await_witness:
  "ctx_state (ctx (run page [Click, Settled None] page_patch)) = Running
   \<and> audioOn (startup_check (run page [Click, Settled None] page_patch))
   \<and> onOff_innerText (startup_check (run page [Click, Settled None] page_patch)) = ''Off''
   \<and> onOff_innerText (onOff_click (run page [Click, Settled None] page_patch)) = ''Turn Off''
   \<and> onOff_innerText (onOff_click page_patch) = ''Turn On''"
proof -
  have r: "ctx_state (ctx (run page [Click, Settled None] page_patch)) = Running"
    by (simp add: page_eval)
  have a: "audioOn (run page [Click, Settled None] page_patch)"
    by (simp add: page_eval)
  have b: "\<not> audioOn page_patch"
    by (simp add: page_patch_eq)
  show ?thesis
    using click_writes_before_await [of "run page [Click, Settled None] page_patch"]
      click_writes_before_await [of page_patch] r a b
    by simp
qed

end
